theory Spec2Isabelle
  imports Main "HOL-Library.Word" "HOL-Library.Signed_Division"
begin

unbundle bit_operations_syntax

section \<open>Machine integers of the forest inference library\<close>

text \<open>
  The source is CUDA C++ (\<^verbatim>\<open>cpp/src/fil/common.cuh\<close>). An \<^verbatim>\<open>int\<close> is a
  32-bit two's complement value and a \<^verbatim>\<open>size_t\<close> a 64-bit unsigned one.
  Arithmetic on \<^verbatim>\<open>int\<close> is modelled as the machine performs it, modulo \<open>2 ^ 32\<close>
  and read back with \<open>sint\<close>; the theorems below say where that agrees with
  the arithmetic of the integers. Two operations have no such machine reading
  and are a separate branch of the model: a shift by a count outside \<open>0..31\<close>
  and a remainder by zero.
\<close>

type_synonym int32 = "32 word"
type_synonym size_t = "64 word"

definition fits_int :: "int \<Rightarrow> bool" where
  "fits_int x \<longleftrightarrow> - (2 ^ 31) \<le> x \<and> x < 2 ^ 31"

text \<open>\<^verbatim>\<open>a << n\<close> on \<^verbatim>\<open>int\<close>; \<open>None\<close> when the count is negative or at least the width.\<close>

definition shl_int :: "int32 \<Rightarrow> int32 \<Rightarrow> int32 option" where
  "shl_int a n =
     (if 0 \<le> sint n \<and> sint n < 32 then Some (push_bit (nat (sint n)) a) else None)"

text \<open>
  \<^verbatim>\<open>a % b\<close> on \<^verbatim>\<open>int\<close>: the remainder of the division that truncates towards
  zero; \<open>None\<close> when the divisor is zero, and when the quotient \<^verbatim>\<open>a / b\<close> is not
  representable (\<^verbatim>\<open>INT_MIN % -1\<close>).
\<close>

definition mod_int :: "int32 \<Rightarrow> int32 \<Rightarrow> int32 option" where
  "mod_int a b =
     (if b = 0 \<or> (sint a = - (2 ^ 31) \<and> sint b = - 1) then None
      else Some (word_of_int (sint a smod sint b)))"

section \<open>Node counts of dense trees\<close>

text \<open>
  \<^verbatim>\<open>int tree_num_nodes(int depth) { return (1 << (depth + 1)) - 1; }\<close>
\<close>

definition tree_num_nodes :: "int32 \<Rightarrow> int32 option" where
  "tree_num_nodes depth = map_option (\<lambda>p. p - 1) (shl_int 1 (depth + 1))"

text \<open>
  \<^verbatim>\<open>int forest_num_nodes(int num_trees, int depth) {
    return num_trees * tree_num_nodes(depth); }\<close>
\<close>

definition forest_num_nodes :: "int32 \<Rightarrow> int32 \<Rightarrow> int32 option" where
  "forest_num_nodes num_trees depth =
     map_option (\<lambda>t. num_trees * t) (tree_num_nodes depth)"

section \<open>Forest storage\<close>

text \<open>
  A pointer into an array is the array it points into together with an element
  offset. Pointer arithmetic moves the offset and checks nothing; reading
  through a pointer whose offset lies outside the array has no defined result
  and is \<open>None\<close>.
\<close>

record 'a ptr =
  ptr_array :: "'a list"
  ptr_offset :: int

definition ptr_add :: "'a ptr \<Rightarrow> int32 \<Rightarrow> 'a ptr" where
  "ptr_add p n = p\<lparr>ptr_offset := ptr_offset p + sint n\<rparr>"

definition deref :: "'a ptr \<Rightarrow> 'a option" where
  "deref p =
     (if 0 \<le> ptr_offset p \<and> ptr_offset p < int (length (ptr_array p))
      then Some (ptr_array p ! nat (ptr_offset p)) else None)"

text \<open>\<^verbatim>\<open>p[n]\<close> is \<^verbatim>\<open>*(p + n)\<close>.\<close>

definition ptr_index :: "'a ptr \<Rightarrow> int32 \<Rightarrow> 'a option" where
  "ptr_index p n = deref (ptr_add p n)"

subsection \<open>Dense storage\<close>

text \<open>
  \<^verbatim>\<open>struct dense_tree { dense_node* nodes_; int node_pitch_; }\<close> with
  \<^verbatim>\<open>operator[](int i) { return nodes_[i * node_pitch_]; }\<close>
\<close>

record 'n dense_tree =
  dt_nodes :: "'n ptr"
  dt_node_pitch :: int32

definition dense_tree_at :: "'n dense_tree \<Rightarrow> int32 \<Rightarrow> 'n option" where
  "dense_tree_at t i = ptr_index (dt_nodes t) (i * dt_node_pitch t)"

text \<open>
  \<^verbatim>\<open>struct dense_storage { dense_node* nodes_; int num_trees_; int tree_stride_;
  int node_pitch_; }\<close> with
  \<^verbatim>\<open>operator[](int i) { return dense_tree(nodes_ + i * tree_stride_, node_pitch_); }\<close>
\<close>

record 'n dense_storage =
  ds_nodes :: "'n ptr"
  ds_num_trees :: int32
  ds_tree_stride :: int32
  ds_node_pitch :: int32

definition dense_storage_at :: "'n dense_storage \<Rightarrow> int32 \<Rightarrow> 'n dense_tree" where
  "dense_storage_at s i =
     \<lparr>dt_nodes = ptr_add (ds_nodes s) (i * ds_tree_stride s),
      dt_node_pitch = ds_node_pitch s\<rparr>"

subsection \<open>Sparse storage\<close>

text \<open>
  \<^verbatim>\<open>struct sparse_tree { node_t* nodes_; }\<close> with
  \<^verbatim>\<open>operator[](int i) { return nodes_[i]; }\<close>
\<close>

record 'n sparse_tree =
  st_nodes :: "'n ptr"

definition sparse_tree_at :: "'n sparse_tree \<Rightarrow> int32 \<Rightarrow> 'n option" where
  "sparse_tree_at t i = ptr_index (st_nodes t) i"

text \<open>
  \<^verbatim>\<open>struct sparse_storage { int* trees_; node_t* nodes_; int num_trees_; }\<close> with
  \<^verbatim>\<open>operator[](int i) { return sparse_tree<node_t>(&nodes_[trees_[i]]); }\<close>
  The root offset \<^verbatim>\<open>trees_[i]\<close> is read from memory, so the tree is \<open>None\<close> when
  that read is out of the table.
\<close>

record 'n sparse_storage =
  ss_trees :: "int32 ptr"
  ss_nodes :: "'n ptr"
  ss_num_trees :: int32

definition sparse_storage_at :: "'n sparse_storage \<Rightarrow> int32 \<Rightarrow> 'n sparse_tree option" where
  "sparse_storage_at s i =
     map_option (\<lambda>root. \<lparr>st_nodes = ptr_add (ss_nodes s) root\<rparr>) (ptr_index (ss_trees s) i)"

section \<open>Execution plan\<close>

text \<open>
  \<^verbatim>\<open>leaf_algo_t\<close> is an enumeration declared in \<^verbatim>\<open>cuml/fil/fil.h\<close>; its
  enumerators are the five that \<^verbatim>\<open>common.cuh\<close> names.
\<close>

datatype leaf_algo_t =
  FLOAT_UNARY_BINARY
  | CATEGORICAL_LEAF
  | GROVE_PER_CLASS
  | GROVE_PER_CLASS_FEW_CLASSES
  | GROVE_PER_CLASS_MANY_CLASSES

text \<open>
  \<^verbatim>\<open>struct shmem_size_params\<close>, field by field. The defaults of the C++
  declaration are the value \<open>shmem_size_params_default\<close>.
\<close>

record shmem_size_params =
  num_classes :: int32
  leaf_algo :: leaf_algo_t
  num_cols :: int32
  predict_proba :: bool
  cols_in_shmem :: bool
  n_items :: int32
  max_shm :: int32
  blockdim_x :: int32
  shm_sz :: int32

definition shmem_size_params_default :: shmem_size_params where
  "shmem_size_params_default =
     \<lparr>num_classes = 1, leaf_algo = FLOAT_UNARY_BINARY, num_cols = 0,
      predict_proba = False, cols_in_shmem = True, n_items = 0, max_shm = 0,
      blockdim_x = 0, shm_sz = 2147483647\<rparr>"

text \<open>\<^verbatim>\<open>sizeof(float)\<close>, a \<^verbatim>\<open>size_t\<close>.\<close>

definition sizeof_float :: size_t where
  "sizeof_float = 4"

text \<open>
  \<^verbatim>\<open>size_t cols_shmem_size() {
    return cols_in_shmem ? sizeof(float) * num_cols * n_items : 0; }\<close>
  The product associates to the left and is taken in \<^verbatim>\<open>size_t\<close>: each
  \<^verbatim>\<open>int\<close> operand is converted to \<^verbatim>\<open>size_t\<close> first (sign extended, \<open>scast\<close>),
  and unsigned arithmetic is modulo \<open>2 ^ 64\<close>.
\<close>

definition cols_shmem_size :: "'a shmem_size_params_scheme \<Rightarrow> size_t" where
  "cols_shmem_size p =
     (if cols_in_shmem p then sizeof_float * scast (num_cols p) * scast (n_items p) else 0)"

text \<open>
  \<^verbatim>\<open>struct predict_params : shmem_size_params\<close>. The enumerations \<^verbatim>\<open>algo_t\<close> and
  \<^verbatim>\<open>output_t\<close> are declared in \<^verbatim>\<open>cuml/fil/fil.h\<close> and are kept as their integer
  values; the two \<^verbatim>\<open>float*\<close> are kept as addresses.
\<close>

record predict_params = shmem_size_params +
  algo :: int32
  num_outputs :: int32
  preds :: size_t
  data :: size_t
  num_rows :: size_t
  transform :: int32
  num_blocks :: int32

section \<open>Variant dispatch\<close>

text \<open>
  What a call of the dispatcher ends in: the run of one kernel specialization
  \<^verbatim>\<open>Func<cols_in_shmem, leaf_algo, n_items>::run(params, args...)\<close>, recorded with
  its three template arguments and the parameters it receives; a failed
  \<^verbatim>\<open>ASSERT\<close> with its message; or a remainder that is not defined.
  The storage type and the trailing arguments are handed through unchanged and
  are left out.
\<close>

datatype dispatch_result =
  Kernel_run bool leaf_algo_t int32 predict_params
  | Assert_failed string
  | Undefined_remainder

definition dispatch_final ::
  "bool \<Rightarrow> leaf_algo_t \<Rightarrow> int32 \<Rightarrow> predict_params \<Rightarrow> dispatch_result" where
  "dispatch_final t_cols_in_shmem t_leaf_algo t_n_items params =
     Kernel_run t_cols_in_shmem t_leaf_algo t_n_items params"

definition dispatch_on_n_items ::
  "bool \<Rightarrow> leaf_algo_t \<Rightarrow> predict_params \<Rightarrow> dispatch_result" where
  "dispatch_on_n_items t_cols_in_shmem t_leaf_algo params =
     (if n_items params = 1 then dispatch_final t_cols_in_shmem t_leaf_algo 1 params
      else if n_items params = 2 then dispatch_final t_cols_in_shmem t_leaf_algo 2 params
      else if n_items params = 3 then dispatch_final t_cols_in_shmem t_leaf_algo 3 params
      else if n_items params = 4 then dispatch_final t_cols_in_shmem t_leaf_algo 4 params
      else Assert_failed ''internal error: n_items > 4'')"

text \<open>
  \<^verbatim>\<open>FIL_TPB\<close> is a macro of \<^verbatim>\<open>internal.cuh\<close>, which is not part of the sources
  at hand: the dispatcher takes its value as the first argument.
\<close>

definition dispatch_on_leaf_algo ::
  "int32 \<Rightarrow> bool \<Rightarrow> predict_params \<Rightarrow> dispatch_result" where
  "dispatch_on_leaf_algo FIL_TPB t_cols_in_shmem params =
     (case leaf_algo params of
        FLOAT_UNARY_BINARY \<Rightarrow>
          dispatch_on_n_items t_cols_in_shmem FLOAT_UNARY_BINARY
            (params\<lparr>blockdim_x := FIL_TPB\<rparr>)
      | GROVE_PER_CLASS \<Rightarrow>
          if FIL_TPB <s num_classes params then
            dispatch_on_n_items t_cols_in_shmem GROVE_PER_CLASS_MANY_CLASSES
              (params\<lparr>leaf_algo := GROVE_PER_CLASS_MANY_CLASSES, blockdim_x := FIL_TPB\<rparr>)
          else
            (case mod_int FIL_TPB (num_classes params) of
               None \<Rightarrow> Undefined_remainder
             | Some r \<Rightarrow>
                 dispatch_on_n_items t_cols_in_shmem GROVE_PER_CLASS_FEW_CLASSES
                   (params\<lparr>leaf_algo := GROVE_PER_CLASS_FEW_CLASSES,
                      blockdim_x := FIL_TPB - r\<rparr>))
      | CATEGORICAL_LEAF \<Rightarrow>
          dispatch_on_n_items t_cols_in_shmem CATEGORICAL_LEAF
            (params\<lparr>blockdim_x := FIL_TPB\<rparr>)
      | _ \<Rightarrow> Assert_failed ''internal error: invalid leaf_algo'')"

definition dispatch_on_cols_in_shmem :: "int32 \<Rightarrow> predict_params \<Rightarrow> dispatch_result" where
  "dispatch_on_cols_in_shmem FIL_TPB params =
     (if cols_in_shmem params then dispatch_on_leaf_algo FIL_TPB True params
      else dispatch_on_leaf_algo FIL_TPB False params)"

definition dispatch_on_FIL_template_params ::
  "int32 \<Rightarrow> predict_params \<Rightarrow> dispatch_result" where
  "dispatch_on_FIL_template_params FIL_TPB params = dispatch_on_cols_in_shmem FIL_TPB params"

section \<open>The dispatch chain with its parameter objects\<close>

text \<open>
  Every function of the chain takes \<^verbatim>\<open>predict_params params\<close> by value: a call
  copies its argument into a new object that only the callee names, and the
  object is gone when the callee returns or throws. The definitions above leave
  these objects implicit. Here they are explicit: a stack of parameter objects,
  where a function body is given the index \<open>me\<close> of its own \<^verbatim>\<open>params\<close> and an
  assignment \<^verbatim>\<open>params.f = v\<close> updates the stack at that index.
\<close>

type_synonym plan_stack = "predict_params list"

text \<open>
  A call \<^verbatim>\<open>callee(arg)\<close>: the copy of the argument is pushed, the body runs with
  the index of the copy, and the copy is popped.
\<close>

definition call_by_value ::
  "(nat \<Rightarrow> plan_stack \<Rightarrow> dispatch_result \<times> plan_stack) \<Rightarrow> predict_params \<Rightarrow> plan_stack
     \<Rightarrow> dispatch_result \<times> plan_stack" where
  "call_by_value callee arg s =
     (case callee (length s) (s @ [arg]) of (r, s') \<Rightarrow> (r, take (length s) s'))"

text \<open>\<^verbatim>\<open>params.f = v\<close> inside a body whose parameter object is at index \<open>me\<close>.\<close>

definition assign :: "nat \<Rightarrow> (predict_params \<Rightarrow> predict_params) \<Rightarrow> plan_stack \<Rightarrow> plan_stack" where
  "assign me upd s = s[me := upd (s ! me)]"

text \<open>
  \<^verbatim>\<open>Func<...>::run(params, args...)\<close>; its body reads the parameters it is given.
\<close>

definition kernel_run_mem ::
  "bool \<Rightarrow> leaf_algo_t \<Rightarrow> int32 \<Rightarrow> nat \<Rightarrow> plan_stack \<Rightarrow> dispatch_result \<times> plan_stack" where
  "kernel_run_mem t_cols_in_shmem t_leaf_algo t_n_items me s =
     (Kernel_run t_cols_in_shmem t_leaf_algo t_n_items (s ! me), s)"

definition dispatch_final_mem ::
  "bool \<Rightarrow> leaf_algo_t \<Rightarrow> int32 \<Rightarrow> nat \<Rightarrow> plan_stack \<Rightarrow> dispatch_result \<times> plan_stack" where
  "dispatch_final_mem t_cols_in_shmem t_leaf_algo t_n_items me s =
     call_by_value (kernel_run_mem t_cols_in_shmem t_leaf_algo t_n_items) (s ! me) s"

definition dispatch_on_n_items_mem ::
  "bool \<Rightarrow> leaf_algo_t \<Rightarrow> nat \<Rightarrow> plan_stack \<Rightarrow> dispatch_result \<times> plan_stack" where
  "dispatch_on_n_items_mem t_cols_in_shmem t_leaf_algo me s =
     (if n_items (s ! me) = 1
      then call_by_value (dispatch_final_mem t_cols_in_shmem t_leaf_algo 1) (s ! me) s
      else if n_items (s ! me) = 2
      then call_by_value (dispatch_final_mem t_cols_in_shmem t_leaf_algo 2) (s ! me) s
      else if n_items (s ! me) = 3
      then call_by_value (dispatch_final_mem t_cols_in_shmem t_leaf_algo 3) (s ! me) s
      else if n_items (s ! me) = 4
      then call_by_value (dispatch_final_mem t_cols_in_shmem t_leaf_algo 4) (s ! me) s
      else (Assert_failed ''internal error: n_items > 4'', s))"

definition dispatch_on_leaf_algo_mem ::
  "int32 \<Rightarrow> bool \<Rightarrow> nat \<Rightarrow> plan_stack \<Rightarrow> dispatch_result \<times> plan_stack" where
  "dispatch_on_leaf_algo_mem FIL_TPB t_cols_in_shmem me s =
     (case leaf_algo (s ! me) of
        FLOAT_UNARY_BINARY \<Rightarrow>
          (let s1 = assign me (\<lambda>params. params\<lparr>blockdim_x := FIL_TPB\<rparr>) s
           in call_by_value (dispatch_on_n_items_mem t_cols_in_shmem FLOAT_UNARY_BINARY)
                (s1 ! me) s1)
      | GROVE_PER_CLASS \<Rightarrow>
          if FIL_TPB <s num_classes (s ! me) then
            (let s1 = assign me (\<lambda>params. params\<lparr>leaf_algo := GROVE_PER_CLASS_MANY_CLASSES\<rparr>) s;
                 s2 = assign me (\<lambda>params. params\<lparr>blockdim_x := FIL_TPB\<rparr>) s1
             in call_by_value
                  (dispatch_on_n_items_mem t_cols_in_shmem GROVE_PER_CLASS_MANY_CLASSES)
                  (s2 ! me) s2)
          else
            (let s1 = assign me (\<lambda>params. params\<lparr>leaf_algo := GROVE_PER_CLASS_FEW_CLASSES\<rparr>) s
             in case mod_int FIL_TPB (num_classes (s1 ! me)) of
                  None \<Rightarrow> (Undefined_remainder, s1)
                | Some r \<Rightarrow>
                    (let s2 = assign me (\<lambda>params. params\<lparr>blockdim_x := FIL_TPB - r\<rparr>) s1
                     in call_by_value
                          (dispatch_on_n_items_mem t_cols_in_shmem GROVE_PER_CLASS_FEW_CLASSES)
                          (s2 ! me) s2))
      | CATEGORICAL_LEAF \<Rightarrow>
          (let s1 = assign me (\<lambda>params. params\<lparr>blockdim_x := FIL_TPB\<rparr>) s
           in call_by_value (dispatch_on_n_items_mem t_cols_in_shmem CATEGORICAL_LEAF)
                (s1 ! me) s1)
      | _ \<Rightarrow> (Assert_failed ''internal error: invalid leaf_algo'', s))"

definition dispatch_on_cols_in_shmem_mem ::
  "int32 \<Rightarrow> nat \<Rightarrow> plan_stack \<Rightarrow> dispatch_result \<times> plan_stack" where
  "dispatch_on_cols_in_shmem_mem FIL_TPB me s =
     (if cols_in_shmem (s ! me)
      then call_by_value (dispatch_on_leaf_algo_mem FIL_TPB True) (s ! me) s
      else call_by_value (dispatch_on_leaf_algo_mem FIL_TPB False) (s ! me) s)"

definition dispatch_on_FIL_template_params_mem ::
  "int32 \<Rightarrow> nat \<Rightarrow> plan_stack \<Rightarrow> dispatch_result \<times> plan_stack" where
  "dispatch_on_FIL_template_params_mem FIL_TPB me s =
     call_by_value (dispatch_on_cols_in_shmem_mem FIL_TPB) (s ! me) s"

section \<open>Arithmetic of the machine integers\<close>

lemma sint_bounds32: "- (2 ^ 31) \<le> sint (w::int32)" "sint (w::int32) < 2 ^ 31"
  using sint_ge [of w] sint_lt [of w] by simp_all

lemma sint_of_int_fits:
  "fits_int k \<Longrightarrow> sint (word_of_int k :: int32) = k"
  unfolding fits_int_def sint_sbintrunc' by (rule signed_take_bit_int_eq_self) simp_all

lemma sint_succ:
  "sint (d::int32) \<le> 30 \<Longrightarrow> 0 \<le> sint d \<Longrightarrow> sint (d + 1) = sint d + 1"
  by (simp add: sint_word_ariths signed_take_bit_int_eq_self)

lemma sint_pow2m1: "n \<le> 31 \<Longrightarrow> sint ((push_bit n 1 :: int32) - 1) = 2 ^ n - 1"
proof -
  assume n: "n \<le> 31"
  have eq: "(push_bit n 1 :: int32) - 1 = word_of_int (2 ^ n - 1)"
    by (simp add: push_bit_eq_mult)
  have "(2::int) ^ n \<le> 2 ^ 31" using n by (intro power_increasing) auto
  moreover have "(0::int) < 2 ^ n" by simp
  ultimately have "fits_int (2 ^ n - 1)" unfolding fits_int_def by linarith
  then show ?thesis unfolding eq by (rule sint_of_int_fits)
qed

lemma sint_mult_fits:
  "fits_int (sint (a::int32) * sint (b::int32)) \<Longrightarrow> sint (a * b) = sint a * sint b"
  by (simp add: fits_int_def sint_word_ariths signed_take_bit_int_eq_self)

section \<open>Indexing the forest storage\<close>

text \<open>
  Claim C1. For a dense storage with node pointer \<open>ds_nodes\<close>, tree stride
  \<open>ds_tree_stride\<close> and node pitch \<open>ds_node_pitch\<close>, the node \<^verbatim>\<open>storage[i][k]\<close> is
  the element of the node array at the flat offset
  \<open>i * tree_stride + k * node_pitch\<close> from the node pointer: tree \<open>i\<close> starts
  \<open>i * tree_stride\<close> elements in, and its node \<open>k\<close> lies \<open>k * node_pitch\<close>
  elements further. Each of the two products is an \<^verbatim>\<open>int\<close> product, so the
  statement is for products that fit an \<^verbatim>\<open>int\<close>; the read is defined when the
  offset lies in the array.
\<close>

theorem dense_storage_index:
  fixes s :: "'n dense_storage"
  assumes "fits_int (sint i * sint (ds_tree_stride s))"
    and "fits_int (sint k * sint (ds_node_pitch s))"
  shows "dense_tree_at (dense_storage_at s i) k =
           (let off = ptr_offset (ds_nodes s)
                        + (sint i * sint (ds_tree_stride s) + sint k * sint (ds_node_pitch s))
            in if 0 \<le> off \<and> off < int (length (ptr_array (ds_nodes s)))
               then Some (ptr_array (ds_nodes s) ! nat off) else None)"
  using assms
  by (simp add: dense_tree_at_def dense_storage_at_def ptr_index_def ptr_add_def deref_def
      sint_mult_fits Let_def add.assoc)

text \<open>
  Two trees of depth 1 interleaved node by node (stride 1, pitch 2): node 2 of
  tree 1 is the element at offset \<open>1 * 1 + 2 * 2 = 5\<close>.
\<close>

theorem dense_storage_index_witness:
  "fits_int (sint (1::int32) * sint (1::int32)) \<and> fits_int (sint (2::int32) * sint (2::int32)) \<and>
   dense_tree_at
     (dense_storage_at
        \<lparr>ds_nodes = \<lparr>ptr_array = [10, 11, 12, 13, 14, 15 :: nat], ptr_offset = 0\<rparr>,
         ds_num_trees = 2, ds_tree_stride = 1, ds_node_pitch = 2\<rparr> 1) 2 = Some 15"
proof -
  let ?s = "\<lparr>ds_nodes = \<lparr>ptr_array = [10, 11, 12, 13, 14, 15 :: nat], ptr_offset = 0\<rparr>,
             ds_num_trees = 2, ds_tree_stride = 1, ds_node_pitch = 2\<rparr>"
  have h1: "fits_int (sint (1::int32) * sint (ds_tree_stride ?s))"
    by (simp add: fits_int_def)
  have h2: "fits_int (sint (2::int32) * sint (ds_node_pitch ?s))"
    by (simp add: fits_int_def)
  from dense_storage_index [OF h1 h2] h1 h2 show ?thesis
    by (simp add: Let_def)
qed

text \<open>
  Claim C2. For a sparse storage with root-offset table \<open>ss_trees\<close> and node
  pointer \<open>ss_nodes\<close>, the node \<^verbatim>\<open>storage[i][k]\<close> is the element of the node array
  at offset \<open>trees[i] + k\<close> from the node pointer, where \<open>trees[i]\<close> is the root
  offset read from the table. Both additions are pointer arithmetic, so there
  is no \<^verbatim>\<open>int\<close> product or sum that could leave the range. Without a root
  offset (the table read is out of the table) there is no tree.
\<close>

theorem sparse_storage_index:
  fixes s :: "'n sparse_storage"
  shows "(\<forall>root. ptr_index (ss_trees s) i = Some root \<longrightarrow>
            (\<exists>t. sparse_storage_at s i = Some t \<and>
               sparse_tree_at t k =
                 (let off = ptr_offset (ss_nodes s) + (sint root + sint k)
                  in if 0 \<le> off \<and> off < int (length (ptr_array (ss_nodes s)))
                     then Some (ptr_array (ss_nodes s) ! nat off) else None)))
       \<and> (ptr_index (ss_trees s) i = None \<longrightarrow> sparse_storage_at s i = None)"
  by (simp add: sparse_storage_at_def sparse_tree_at_def ptr_index_def ptr_add_def deref_def
      Let_def add.assoc)

text \<open>
  Two trees with roots at offsets 0 and 3: node 1 of tree 1 is the element at
  offset \<open>3 + 1 = 4\<close>.
\<close>

theorem sparse_storage_index_witness:
  "ptr_index \<lparr>ptr_array = [0, 3 :: int32], ptr_offset = 0\<rparr> 1 = Some 3 \<and>
   (\<exists>t. sparse_storage_at
           \<lparr>ss_trees = \<lparr>ptr_array = [0, 3], ptr_offset = 0\<rparr>,
            ss_nodes = \<lparr>ptr_array = [10, 11, 12, 13, 14, 15 :: nat], ptr_offset = 0\<rparr>,
            ss_num_trees = 2\<rparr> 1 = Some t \<and>
        sparse_tree_at t 1 = Some 14)"
proof -
  let ?s = "\<lparr>ss_trees = \<lparr>ptr_array = [0, 3], ptr_offset = 0\<rparr>,
             ss_nodes = \<lparr>ptr_array = [10, 11, 12, 13, 14, 15 :: nat], ptr_offset = 0\<rparr>,
             ss_num_trees = 2\<rparr>"
  have h: "ptr_index (ss_trees ?s) 1 = Some 3"
    by (simp add: ptr_index_def ptr_add_def deref_def)
  from sparse_storage_index [of ?s 1 1] h
  obtain t where "sparse_storage_at ?s 1 = Some t"
    and "sparse_tree_at t 1 =
           (let off = ptr_offset (ss_nodes ?s) + (sint (3::int32) + sint (1::int32))
            in if 0 \<le> off \<and> off < int (length (ptr_array (ss_nodes ?s)))
               then Some (ptr_array (ss_nodes ?s) ! nat off) else None)"
    by blast
  with h show ?thesis by (simp add: Let_def)
qed

section \<open>Node counts\<close>

text \<open>
  Claim C3. For a depth \<open>d \<ge> 0\<close>, \<^verbatim>\<open>tree_num_nodes(d)\<close> is \<open>2 ^ (d + 1) - 1\<close>, the
  size of a complete binary tree of depth \<open>d\<close>, and
  \<^verbatim>\<open>forest_num_nodes(num_trees, d)\<close> is \<open>num_trees * (2 ^ (d + 1) - 1)\<close>. Both are
  computed in 32-bit \<^verbatim>\<open>int\<close> arithmetic, so they are exact while the result fits:
  up to depth 30 for a tree, and while the product fits for a forest. At depth
  30 the shift gives the bit pattern of \<open>- (2 ^ 31)\<close> and the decrement wraps
  around to \<open>2 ^ 31 - 1\<close>; from depth 31 on the shift count is out of range.
\<close>

theorem num_nodes_complete_tree:
  assumes "0 \<le> sint depth" and "sint depth \<le> 30"
  shows "\<exists>t. tree_num_nodes depth = Some t \<and> sint t = 2 ^ (nat (sint depth) + 1) - 1 \<and>
           (\<forall>num_trees. fits_int (sint num_trees * (2 ^ (nat (sint depth) + 1) - 1)) \<longrightarrow>
              (\<exists>f. forest_num_nodes num_trees depth = Some f \<and>
                   sint f = sint num_trees * (2 ^ (nat (sint depth) + 1) - 1)))"
proof -
  let ?n = "nat (sint depth) + 1"
  have s: "sint (depth + 1) = sint depth + 1" using assms by (simp add: sint_succ)
  have n: "nat (sint (depth + 1)) = ?n" using assms s by simp
  have le: "?n \<le> 31" using assms by simp
  have r: "0 \<le> sint (depth + 1) \<and> sint (depth + 1) < 32" using assms s by simp
  have t: "tree_num_nodes depth = Some (push_bit ?n 1 - 1)"
    unfolding tree_num_nodes_def shl_int_def n
    using r by (simp only: if_True option.map simp_thms)
  have v: "sint ((push_bit ?n 1 :: int32) - 1) = 2 ^ ?n - 1"
    using le by (rule sint_pow2m1)
  show ?thesis
    using t v
    by (auto simp only: forest_num_nodes_def option.map sint_mult_fits option.inject simp_thms)
qed

text \<open>A forest of 100 trees of depth 3 has \<open>100 * 15\<close> nodes.\<close>

theorem num_nodes_complete_tree_witness:
  "0 \<le> sint (3::int32) \<and> sint (3::int32) \<le> 30 \<and> fits_int (sint (100::int32) * 15) \<and>
   (\<exists>t. tree_num_nodes 3 = Some t \<and> sint t = 15) \<and>
   (\<exists>f. forest_num_nodes 100 3 = Some f \<and> sint f = 1500)"
proof -
  have h1: "0 \<le> sint (3::int32)" by simp
  have h2: "sint (3::int32) \<le> 30" by simp
  have h3: "fits_int (sint (100::int32) * 15)" by (simp add: fits_int_def)
  from num_nodes_complete_tree [OF h1 h2] obtain t
    where t: "tree_num_nodes 3 = Some t" "sint t = 15"
      and f: "\<forall>num_trees. fits_int (sint num_trees * 15) \<longrightarrow>
                (\<exists>f. forest_num_nodes num_trees 3 = Some f \<and> sint f = sint num_trees * 15)"
    by auto
  from f h3 obtain f' where "forest_num_nodes 100 3 = Some f'" "sint f' = sint (100::int32) * 15"
    by blast
  with t h3 show ?thesis by simp
qed

section \<open>Shared-memory footprint of the column cache\<close>

lemma cols_shmem_size_uint:
  assumes "cols_in_shmem p"
  shows "uint (cols_shmem_size p) = (4 * sint (num_cols p) * sint (n_items p)) mod 2 ^ 64"
proof -
  have "cols_shmem_size p = word_of_int (4 * sint (num_cols p) * sint (n_items p))"
    using assms by (simp add: cols_shmem_size_def sizeof_float_def)
  then show ?thesis by (simp only: uint_word_of_int) simp
qed

lemma footprint_bound:
  fixes a b :: int
  assumes "0 \<le> a" "a < 2 ^ 31" "0 \<le> b" "b < 2 ^ 31"
  shows "0 \<le> 4 * a * b" and "4 * a * b < 2 ^ 64"
proof -
  show "0 \<le> 4 * a * b" using assms by simp
  have "a * b \<le> (2 ^ 31 - 1) * (2 ^ 31 - 1)"
    using assms by (intro mult_mono) auto
  then show "4 * a * b < 2 ^ 64" by simp
qed

lemma cols_shmem_size_exact:
  assumes "cols_in_shmem p" "0 \<le> sint (num_cols p)" "0 \<le> sint (n_items p)"
  shows "uint (cols_shmem_size p) = 4 * sint (num_cols p) * sint (n_items p)"
proof -
  note b = footprint_bound [OF assms(2) sint_bounds32(2) assms(3) sint_bounds32(2)]
  show ?thesis
    using b by (simp only: cols_shmem_size_uint [OF assms(1)] mod_pos_pos_trivial)
qed

text \<open>
  Claim C6. The column-cache part of the shared-memory footprint,
  \<^verbatim>\<open>cols_shmem_size()\<close>, is \<^verbatim>\<open>sizeof(float) * num_cols * n_items\<close> when column
  caching is enabled and 0 when it is disabled. The product is a \<^verbatim>\<open>size_t\<close>
  product: it is \<open>4 * num_cols * n_items\<close> modulo \<open>2 ^ 64\<close>, and for counts that
  are not negative it is \<open>4 * num_cols * n_items\<close> itself, 4 bytes per column
  per row.
\<close>

theorem cols_shmem_size_value:
  "(cols_in_shmem p \<longrightarrow>
      uint (cols_shmem_size p) = (4 * sint (num_cols p) * sint (n_items p)) mod 2 ^ 64
      \<and> (0 \<le> sint (num_cols p) \<and> 0 \<le> sint (n_items p) \<longrightarrow>
           uint (cols_shmem_size p) = 4 * sint (num_cols p) * sint (n_items p)))
   \<and> (\<not> cols_in_shmem p \<longrightarrow> cols_shmem_size p = 0)"
  using cols_shmem_size_uint [of p] cols_shmem_size_exact [of p]
  by (simp add: cols_shmem_size_def)

text \<open>Ten columns and two rows per thread take 80 bytes; without caching, none.\<close>

theorem cols_shmem_size_value_witness:
  "cols_in_shmem (shmem_size_params_default\<lparr>num_cols := 10, n_items := 2\<rparr>) \<and>
   0 \<le> sint (10::int32) \<and> 0 \<le> sint (2::int32) \<and>
   uint (cols_shmem_size (shmem_size_params_default\<lparr>num_cols := 10, n_items := 2\<rparr>)) = 80 \<and>
   \<not> cols_in_shmem
       (shmem_size_params_default\<lparr>num_cols := 10, n_items := 2, cols_in_shmem := False\<rparr>) \<and>
   cols_shmem_size
     (shmem_size_params_default\<lparr>num_cols := 10, n_items := 2, cols_in_shmem := False\<rparr>) = 0"
  using cols_shmem_size_value [of "shmem_size_params_default\<lparr>num_cols := 10, n_items := 2\<rparr>"]
    cols_shmem_size_value
      [of "shmem_size_params_default\<lparr>num_cols := 10, n_items := 2, cols_in_shmem := False\<rparr>"]
  by (simp add: shmem_size_params_default_def)

text \<open>
  Claim C7, as written: with column caching enabled, \<^verbatim>\<open>cols_shmem_size()\<close> is
  strictly increasing in \<^verbatim>\<open>n_items\<close> over 1..4, all other fields fixed. This fails
  for a plan without columns: \<^verbatim>\<open>num_cols\<close> is 0 in the default plan, the product
  is 0 for every \<^verbatim>\<open>n_items\<close>, and the footprint at \<^verbatim>\<open>n_items = 2\<close> is not larger
  than at \<^verbatim>\<open>n_items = 1\<close>.
\<close>

theorem cols_shmem_size_no_columns:
  "cols_in_shmem (shmem_size_params_default\<lparr>n_items := 1\<rparr>) \<and>
   cols_in_shmem (shmem_size_params_default\<lparr>n_items := 2\<rparr>) \<and>
   \<not> cols_shmem_size (shmem_size_params_default\<lparr>n_items := 1\<rparr>)
       < cols_shmem_size (shmem_size_params_default\<lparr>n_items := 2\<rparr>)"
  by (simp add: shmem_size_params_default_def cols_shmem_size_def)

text \<open>
  Claim C7, amended: with column caching enabled and at least one column
  (\<^verbatim>\<open>num_cols \<ge> 1\<close>), \<^verbatim>\<open>cols_shmem_size()\<close> is strictly increasing in \<^verbatim>\<open>n_items\<close>,
  all other fields fixed: of two values of \<^verbatim>\<open>n_items\<close> that are not negative, and
  so of any two in 1..4, the larger has the strictly larger footprint. The
  comparison is the unsigned one of \<^verbatim>\<open>size_t\<close>.
\<close>

theorem cols_shmem_size_strict_mono:
  assumes c: "cols_in_shmem p" and nc: "1 \<le> sint (num_cols p)"
    and a: "0 \<le> sint a" and ab: "sint a < sint b"
  shows "cols_shmem_size (p\<lparr>n_items := a\<rparr>) < cols_shmem_size (p\<lparr>n_items := b\<rparr>)"
proof -
  have ea: "uint (cols_shmem_size (p\<lparr>n_items := a\<rparr>)) = 4 * sint (num_cols p) * sint a"
    using cols_shmem_size_exact [of "p\<lparr>n_items := a\<rparr>"] c nc a by simp
  have eb: "uint (cols_shmem_size (p\<lparr>n_items := b\<rparr>)) = 4 * sint (num_cols p) * sint b"
    using cols_shmem_size_exact [of "p\<lparr>n_items := b\<rparr>"] c nc a ab by simp
  have "4 * sint (num_cols p) * sint a < 4 * sint (num_cols p) * sint b"
    using nc ab by simp
  then show ?thesis by (simp only: word_less_def ea eb)
qed

text \<open>With ten columns, three rows per thread take more than two.\<close>

theorem cols_shmem_size_strict_mono_witness:
  "cols_in_shmem (shmem_size_params_default\<lparr>num_cols := 10\<rparr>) \<and>
   1 \<le> sint (num_cols (shmem_size_params_default\<lparr>num_cols := 10\<rparr>)) \<and>
   0 \<le> sint (2::int32) \<and> sint (2::int32) < sint (3::int32) \<and>
   cols_shmem_size (shmem_size_params_default\<lparr>num_cols := 10, n_items := 2\<rparr>)
     < cols_shmem_size (shmem_size_params_default\<lparr>num_cols := 10, n_items := 3\<rparr>)"
proof -
  let ?p = "shmem_size_params_default\<lparr>num_cols := 10\<rparr>"
  have h1: "cols_in_shmem ?p" by (simp add: shmem_size_params_default_def)
  have h2: "1 \<le> sint (num_cols ?p)" by simp
  have h3: "0 \<le> sint (2::int32)" by simp
  have h4: "sint (2::int32) < sint (3::int32)" by simp
  from cols_shmem_size_strict_mono [OF h1 h2 h3 h4] h1 h2 h3 h4 show ?thesis by simp
qed

section \<open>Outcome of the dispatch\<close>

lemma dispatch_on_n_items_cases:
  "dispatch_on_n_items c la p =
     (if n_items p \<in> {1, 2, 3, 4} then Kernel_run c la (n_items p) p
      else Assert_failed ''internal error: n_items > 4'')"
  by (auto simp: dispatch_on_n_items_def dispatch_final_def)

lemma dispatch_unfold:
  "dispatch_on_FIL_template_params FIL_TPB p = dispatch_on_leaf_algo FIL_TPB (cols_in_shmem p) p"
  by (simp add: dispatch_on_FIL_template_params_def dispatch_on_cols_in_shmem_def)

text \<open>
  The four functions of the chain in one equation: which of the five ends a
  plan reaches.
\<close>

lemma dispatch_outcome:
  "dispatch_on_FIL_template_params FIL_TPB p =
     (if leaf_algo p \<notin> {FLOAT_UNARY_BINARY, GROVE_PER_CLASS, CATEGORICAL_LEAF}
      then Assert_failed ''internal error: invalid leaf_algo''
      else if leaf_algo p = GROVE_PER_CLASS \<and> \<not> FIL_TPB <s num_classes p \<and> num_classes p = 0
      then Undefined_remainder
      else if n_items p \<notin> {1, 2, 3, 4} then Assert_failed ''internal error: n_items > 4''
      else if leaf_algo p = GROVE_PER_CLASS \<and> FIL_TPB <s num_classes p
      then Kernel_run (cols_in_shmem p) GROVE_PER_CLASS_MANY_CLASSES (n_items p)
             (p\<lparr>leaf_algo := GROVE_PER_CLASS_MANY_CLASSES, blockdim_x := FIL_TPB\<rparr>)
      else if leaf_algo p = GROVE_PER_CLASS
      then Kernel_run (cols_in_shmem p) GROVE_PER_CLASS_FEW_CLASSES (n_items p)
             (p\<lparr>leaf_algo := GROVE_PER_CLASS_FEW_CLASSES,
                blockdim_x := FIL_TPB - word_of_int (sint FIL_TPB smod sint (num_classes p))\<rparr>)
      else Kernel_run (cols_in_shmem p) (leaf_algo p) (n_items p) (p\<lparr>blockdim_x := FIL_TPB\<rparr>))"
proof (cases "leaf_algo p")
  case GROVE_PER_CLASS
  show ?thesis
  proof (cases "FIL_TPB <s num_classes p")
    case True
    with GROVE_PER_CLASS show ?thesis
      by (simp add: dispatch_unfold dispatch_on_leaf_algo_def dispatch_on_n_items_cases)
  next
    case False
    show ?thesis
    proof (cases "num_classes p = 0")
      case True
      with False GROVE_PER_CLASS show ?thesis
        by (simp add: dispatch_unfold dispatch_on_leaf_algo_def mod_int_def)
    next
      case nz: False
      from False nz have "mod_int FIL_TPB (num_classes p)
          = Some (word_of_int (sint FIL_TPB smod sint (num_classes p)))"
        by (auto simp: mod_int_def word_sless_alt)
      with False nz GROVE_PER_CLASS show ?thesis
        by (simp add: dispatch_unfold dispatch_on_leaf_algo_def dispatch_on_n_items_cases)
    qed
  qed
qed (simp_all add: dispatch_unfold dispatch_on_leaf_algo_def dispatch_on_n_items_cases)

text \<open>
  With a thread-block width that is not negative, a \<^verbatim>\<open>GROVE_PER_CLASS\<close> plan
  without classes ends in the remainder by zero, whatever its other fields.
\<close>

lemma dispatch_without_classes:
  assumes "0 \<le> sint FIL_TPB" and "leaf_algo p = GROVE_PER_CLASS" and "num_classes p = 0"
  shows "dispatch_on_FIL_template_params FIL_TPB p = Undefined_remainder"
  using assms by (simp add: dispatch_outcome word_sless_alt)

lemma few_classes_blockdim:
  fixes t n :: int32
  assumes n: "1 \<le> sint n" and le: "sint n \<le> sint t"
  shows "sint (t - word_of_int (sint t smod sint n)) = sint t - sint t mod sint n"
proof -
  have sm: "sint t smod sint n = sint t mod sint n"
    using n le by (simp add: signed_modulo_int_def sgn_if abs_if)
  have m: "0 \<le> sint t mod sint n" "sint t mod sint n < sint n"
    using n by simp_all
  have "t - word_of_int (sint t mod sint n) = word_of_int (sint t - sint t mod sint n)"
    by simp
  moreover have "fits_int (sint t - sint t mod sint n)"
    using m le sint_bounds32 [of t] unfolding fits_int_def by linarith
  ultimately show ?thesis
    unfolding sm by (simp only: sint_of_int_fits)
qed

lemma largest_multiple:
  fixes T n :: int
  assumes "1 \<le> n"
  shows "n dvd T - T mod n" and "T - T mod n \<le> T"
    and "\<And>m. n dvd m \<Longrightarrow> m \<le> T \<Longrightarrow> m \<le> T - T mod n"
proof -
  show "n dvd T - T mod n" by (simp add: minus_mod_eq_mult_div)
  show "T - T mod n \<le> T" using assms by simp
  fix m assume "n dvd m" "m \<le> T"
  then obtain q where q: "m = n * q" by (auto simp: dvd_def)
  have "q \<le> T div n"
  proof -
    have "n * q \<le> T" using q \<open>m \<le> T\<close> by simp
    then have "(n * q) div n \<le> T div n" using assms by (intro zdiv_mono1) auto
    then show ?thesis using assms by simp
  qed
  then have "n * q \<le> n * (T div n)" using assms by (intro mult_left_mono) auto
  then show "m \<le> T - T mod n" by (simp add: q minus_mod_eq_mult_div)
qed

text \<open>
  Claim C4. For a plan with \<^verbatim>\<open>leaf_algo = GROVE_PER_CLASS\<close> the dispatcher selects
  the many-classes variant if and only if \<^verbatim>\<open>num_classes > FIL_TPB\<close>, and the
  few-classes variant otherwise; the choice depends on \<^verbatim>\<open>num_classes\<close> and
  \<^verbatim>\<open>FIL_TPB\<close> alone. The selected variant is the leaf algorithm of the kernel
  specialization that runs: every run reached for such a plan has the variant
  of this rule, two such plans with the same \<^verbatim>\<open>num_classes\<close> run the same
  variant, and a run is reached whenever \<^verbatim>\<open>n_items\<close> is in 1..4 and
  \<^verbatim>\<open>num_classes\<close> is not 0.
\<close>

theorem grove_per_class_split:
  assumes g: "leaf_algo p = GROVE_PER_CLASS"
  shows "(\<forall>c la n p'. dispatch_on_FIL_template_params FIL_TPB p = Kernel_run c la n p' \<longrightarrow>
            (la = GROVE_PER_CLASS_MANY_CLASSES \<longleftrightarrow> FIL_TPB <s num_classes p) \<and>
            (la = GROVE_PER_CLASS_FEW_CLASSES \<longleftrightarrow> \<not> FIL_TPB <s num_classes p) \<and>
            (\<forall>q c' la' n' q'. leaf_algo q = GROVE_PER_CLASS \<and> num_classes q = num_classes p \<and>
                dispatch_on_FIL_template_params FIL_TPB q = Kernel_run c' la' n' q'
                \<longrightarrow> la' = la))
       \<and> (n_items p \<in> {1, 2, 3, 4} \<and> num_classes p \<noteq> 0 \<longrightarrow>
            (\<exists>p'. dispatch_on_FIL_template_params FIL_TPB p =
                Kernel_run (cols_in_shmem p)
                  (if FIL_TPB <s num_classes p then GROVE_PER_CLASS_MANY_CLASSES
                   else GROVE_PER_CLASS_FEW_CLASSES) (n_items p) p'))"
  using g by (auto simp: dispatch_outcome split: if_splits)

text \<open>
  A plan with 300 classes and a thread-block width of 256 runs the
  many-classes variant.
\<close>

theorem grove_per_class_split_witness:
  "leaf_algo
     \<lparr>num_classes = 300, leaf_algo = GROVE_PER_CLASS, num_cols = 10, predict_proba = False,
       cols_in_shmem = True, n_items = 2, max_shm = 49152, blockdim_x = 0, shm_sz = 80,
       algo = 0, num_outputs = 300, preds = 0, data = 0, num_rows = 1000, transform = 0,
       num_blocks = 1\<rparr> = GROVE_PER_CLASS \<and>
   n_items
     \<lparr>num_classes = 300, leaf_algo = GROVE_PER_CLASS, num_cols = 10, predict_proba = False,
       cols_in_shmem = True, n_items = 2, max_shm = 49152, blockdim_x = 0, shm_sz = 80,
       algo = 0, num_outputs = 300, preds = 0, data = 0, num_rows = 1000, transform = 0,
       num_blocks = 1\<rparr> \<in> {1, 2, 3, 4} \<and>
   (256::int32) <s 300 \<and>
   (\<exists>p'. dispatch_on_FIL_template_params 256
      \<lparr>num_classes = 300, leaf_algo = GROVE_PER_CLASS, num_cols = 10, predict_proba = False,
       cols_in_shmem = True, n_items = 2, max_shm = 49152, blockdim_x = 0, shm_sz = 80,
       algo = 0, num_outputs = 300, preds = 0, data = 0, num_rows = 1000, transform = 0,
       num_blocks = 1\<rparr>
     = Kernel_run True GROVE_PER_CLASS_MANY_CLASSES 2 p')"
proof -
  let ?p = "\<lparr>num_classes = 300, leaf_algo = GROVE_PER_CLASS, num_cols = 10, predict_proba = False,
       cols_in_shmem = True, n_items = 2, max_shm = 49152, blockdim_x = 0, shm_sz = 80,
       algo = 0, num_outputs = 300, preds = 0, data = 0, num_rows = 1000, transform = 0,
       num_blocks = 1\<rparr>"
  have g: "leaf_algo ?p = GROVE_PER_CLASS" by simp
  have m: "(256::int32) <s 300" by simp
  have n: "n_items ?p \<in> {1, 2, 3, 4} \<and> num_classes ?p \<noteq> 0" by simp
  with grove_per_class_split [OF g, of 256] m
  have "\<exists>p'. dispatch_on_FIL_template_params 256 ?p
           = Kernel_run True GROVE_PER_CLASS_MANY_CLASSES 2 p'"
    by simp
  with g m n show ?thesis by blast
qed

text \<open>
  The width in the parameters of a kernel run, whatever plan the run was
  reached from.
\<close>

lemma kernel_run_blockdim_x:
  assumes run: "dispatch_on_FIL_template_params FIL_TPB p = Kernel_run c la n p'"
  shows "(la \<in> {FLOAT_UNARY_BINARY, CATEGORICAL_LEAF, GROVE_PER_CLASS_MANY_CLASSES} \<longrightarrow>
            blockdim_x p' = FIL_TPB)
       \<and> (la = GROVE_PER_CLASS_FEW_CLASSES \<and> 1 \<le> sint (num_classes p) \<longrightarrow>
            sint (num_classes p) \<le> sint FIL_TPB \<and>
            sint (blockdim_x p') = sint FIL_TPB - sint FIL_TPB mod sint (num_classes p) \<and>
            sint (num_classes p) dvd sint (blockdim_x p') \<and>
            sint (blockdim_x p') \<le> sint FIL_TPB \<and>
            (\<forall>m. sint (num_classes p) dvd m \<and> m \<le> sint FIL_TPB
                \<longrightarrow> m \<le> sint (blockdim_x p')))"
proof (intro conjI impI)
  assume "la \<in> {FLOAT_UNARY_BINARY, CATEGORICAL_LEAF, GROVE_PER_CLASS_MANY_CLASSES}"
  with run show "blockdim_x p' = FIL_TPB"
    by (auto simp: dispatch_outcome split: if_splits)
next
  assume a: "la = GROVE_PER_CLASS_FEW_CLASSES \<and> 1 \<le> sint (num_classes p)"
  from run a have le: "sint (num_classes p) \<le> sint FIL_TPB"
    and b: "blockdim_x p' = FIL_TPB - word_of_int (sint FIL_TPB smod sint (num_classes p))"
    by (auto simp: dispatch_outcome word_sless_alt split: if_splits)
  from a le have v: "sint (blockdim_x p') = sint FIL_TPB - sint FIL_TPB mod sint (num_classes p)"
    unfolding b by (intro few_classes_blockdim) simp_all
  from a have n: "1 \<le> sint (num_classes p)" by simp
  show "sint (num_classes p) \<le> sint FIL_TPB" by (fact le)
  show "sint (blockdim_x p') = sint FIL_TPB - sint FIL_TPB mod sint (num_classes p)" by (fact v)
  show "sint (num_classes p) dvd sint (blockdim_x p')"
    unfolding v using n by (rule largest_multiple(1))
  show "sint (blockdim_x p') \<le> sint FIL_TPB"
    unfolding v using n by (rule largest_multiple(2))
  show "\<forall>m. sint (num_classes p) dvd m \<and> m \<le> sint FIL_TPB \<longrightarrow> m \<le> sint (blockdim_x p')"
    unfolding v using largest_multiple(3) [OF n] by blast
qed

text \<open>
  Claim C5. The dispatcher sets the thread-block width \<^verbatim>\<open>blockdim_x\<close> to
  \<^verbatim>\<open>FIL_TPB\<close> for the unary, the categorical and the many-classes grove
  algorithm. For the few-classes grove algorithm with
  \<open>1 \<le> num_classes \<le> FIL_TPB\<close> it sets it to
  \<^verbatim>\<open>FIL_TPB - FIL_TPB % num_classes\<close>, which is the largest multiple of
  \<^verbatim>\<open>num_classes\<close> that does not exceed \<^verbatim>\<open>FIL_TPB\<close>. The width is read off the
  parameters the kernel specialization is run with, and the run is reached:
  for \<^verbatim>\<open>n_items\<close> in 1..4, a unary and a categorical plan run their
  specialization on the plan with \<^verbatim>\<open>blockdim_x = FIL_TPB\<close>; a \<^verbatim>\<open>GROVE_PER_CLASS\<close> plan
  with \<^verbatim>\<open>num_classes > FIL_TPB\<close> runs the many-classes one on the plan with the
  resolved algorithm and \<^verbatim>\<open>blockdim_x = FIL_TPB\<close>; and one with
  \<open>1 \<le> num_classes \<le> FIL_TPB\<close> runs the few-classes one on the plan with the
  resolved algorithm and the largest multiple as \<^verbatim>\<open>blockdim_x\<close>. No other field
  of the plan is changed, and no kernel run has another width.
\<close>

theorem dispatch_blockdim_x:
  "(n_items p \<in> {1, 2, 3, 4} \<and> leaf_algo p = FLOAT_UNARY_BINARY \<longrightarrow>
      dispatch_on_FIL_template_params FIL_TPB p
        = Kernel_run (cols_in_shmem p) FLOAT_UNARY_BINARY (n_items p)
            (p\<lparr>blockdim_x := FIL_TPB\<rparr>))
   \<and> (n_items p \<in> {1, 2, 3, 4} \<and> leaf_algo p = CATEGORICAL_LEAF \<longrightarrow>
      dispatch_on_FIL_template_params FIL_TPB p
        = Kernel_run (cols_in_shmem p) CATEGORICAL_LEAF (n_items p)
            (p\<lparr>blockdim_x := FIL_TPB\<rparr>))
   \<and> (n_items p \<in> {1, 2, 3, 4} \<and> leaf_algo p = GROVE_PER_CLASS
        \<and> FIL_TPB <s num_classes p \<longrightarrow>
      dispatch_on_FIL_template_params FIL_TPB p
        = Kernel_run (cols_in_shmem p) GROVE_PER_CLASS_MANY_CLASSES (n_items p)
            (p\<lparr>leaf_algo := GROVE_PER_CLASS_MANY_CLASSES, blockdim_x := FIL_TPB\<rparr>))
   \<and> (n_items p \<in> {1, 2, 3, 4} \<and> leaf_algo p = GROVE_PER_CLASS
        \<and> 1 \<le> sint (num_classes p) \<and> sint (num_classes p) \<le> sint FIL_TPB \<longrightarrow>
      (\<exists>b. dispatch_on_FIL_template_params FIL_TPB p
             = Kernel_run (cols_in_shmem p) GROVE_PER_CLASS_FEW_CLASSES (n_items p)
                 (p\<lparr>leaf_algo := GROVE_PER_CLASS_FEW_CLASSES, blockdim_x := b\<rparr>) \<and>
           sint b = sint FIL_TPB - sint FIL_TPB mod sint (num_classes p) \<and>
           sint (num_classes p) dvd sint b \<and> sint b \<le> sint FIL_TPB \<and>
           (\<forall>m. sint (num_classes p) dvd m \<and> m \<le> sint FIL_TPB \<longrightarrow> m \<le> sint b)))
   \<and> (\<forall>c la n p'. dispatch_on_FIL_template_params FIL_TPB p = Kernel_run c la n p' \<longrightarrow>
        (la \<in> {FLOAT_UNARY_BINARY, CATEGORICAL_LEAF, GROVE_PER_CLASS_MANY_CLASSES} \<longrightarrow>
           blockdim_x p' = FIL_TPB)
        \<and> (la = GROVE_PER_CLASS_FEW_CLASSES \<and> 1 \<le> sint (num_classes p) \<longrightarrow>
             sint (num_classes p) \<le> sint FIL_TPB \<and>
             sint (blockdim_x p') = sint FIL_TPB - sint FIL_TPB mod sint (num_classes p) \<and>
             sint (num_classes p) dvd sint (blockdim_x p') \<and>
             sint (blockdim_x p') \<le> sint FIL_TPB \<and>
             (\<forall>m. sint (num_classes p) dvd m \<and> m \<le> sint FIL_TPB
                 \<longrightarrow> m \<le> sint (blockdim_x p'))))"
proof -
  have unary: "dispatch_on_FIL_template_params FIL_TPB p
        = Kernel_run (cols_in_shmem p) FLOAT_UNARY_BINARY (n_items p)
            (p\<lparr>blockdim_x := FIL_TPB\<rparr>)"
    if "n_items p \<in> {1, 2, 3, 4} \<and> leaf_algo p = FLOAT_UNARY_BINARY"
    using that by (simp add: dispatch_outcome)
  have categorical: "dispatch_on_FIL_template_params FIL_TPB p
        = Kernel_run (cols_in_shmem p) CATEGORICAL_LEAF (n_items p)
            (p\<lparr>blockdim_x := FIL_TPB\<rparr>)"
    if "n_items p \<in> {1, 2, 3, 4} \<and> leaf_algo p = CATEGORICAL_LEAF"
    using that by (simp add: dispatch_outcome)
  have many: "dispatch_on_FIL_template_params FIL_TPB p
        = Kernel_run (cols_in_shmem p) GROVE_PER_CLASS_MANY_CLASSES (n_items p)
            (p\<lparr>leaf_algo := GROVE_PER_CLASS_MANY_CLASSES, blockdim_x := FIL_TPB\<rparr>)"
    if "n_items p \<in> {1, 2, 3, 4} \<and> leaf_algo p = GROVE_PER_CLASS \<and> FIL_TPB <s num_classes p"
    using that by (simp add: dispatch_outcome)
  have few: "\<exists>b. dispatch_on_FIL_template_params FIL_TPB p
             = Kernel_run (cols_in_shmem p) GROVE_PER_CLASS_FEW_CLASSES (n_items p)
                 (p\<lparr>leaf_algo := GROVE_PER_CLASS_FEW_CLASSES, blockdim_x := b\<rparr>) \<and>
           sint b = sint FIL_TPB - sint FIL_TPB mod sint (num_classes p) \<and>
           sint (num_classes p) dvd sint b \<and> sint b \<le> sint FIL_TPB \<and>
           (\<forall>m. sint (num_classes p) dvd m \<and> m \<le> sint FIL_TPB \<longrightarrow> m \<le> sint b)"
    if a: "n_items p \<in> {1, 2, 3, 4} \<and> leaf_algo p = GROVE_PER_CLASS
        \<and> 1 \<le> sint (num_classes p) \<and> sint (num_classes p) \<le> sint FIL_TPB"
  proof -
    let ?b = "FIL_TPB - word_of_int (sint FIL_TPB smod sint (num_classes p))"
    from a have n: "1 \<le> sint (num_classes p)" and le: "sint (num_classes p) \<le> sint FIL_TPB"
      by simp_all
    from n have nz: "num_classes p \<noteq> 0" by auto
    from le have nm: "\<not> FIL_TPB <s num_classes p" by (simp add: word_sless_alt)
    from a nz nm have run: "dispatch_on_FIL_template_params FIL_TPB p
               = Kernel_run (cols_in_shmem p) GROVE_PER_CLASS_FEW_CLASSES (n_items p)
                   (p\<lparr>leaf_algo := GROVE_PER_CLASS_FEW_CLASSES, blockdim_x := ?b\<rparr>)"
      by (simp add: dispatch_outcome)
    have v: "sint ?b = sint FIL_TPB - sint FIL_TPB mod sint (num_classes p)"
      using n le by (rule few_classes_blockdim)
    have d: "sint (num_classes p) dvd sint ?b"
      unfolding v using n by (rule largest_multiple(1))
    have u: "sint ?b \<le> sint FIL_TPB"
      unfolding v using n by (rule largest_multiple(2))
    have l: "\<forall>m. sint (num_classes p) dvd m \<and> m \<le> sint FIL_TPB \<longrightarrow> m \<le> sint ?b"
      unfolding v using largest_multiple(3) [OF n] by blast
    from run v d u l show ?thesis by blast
  qed
  have runs: "(la \<in> {FLOAT_UNARY_BINARY, CATEGORICAL_LEAF, GROVE_PER_CLASS_MANY_CLASSES} \<longrightarrow>
           blockdim_x p' = FIL_TPB)
        \<and> (la = GROVE_PER_CLASS_FEW_CLASSES \<and> 1 \<le> sint (num_classes p) \<longrightarrow>
             sint (num_classes p) \<le> sint FIL_TPB \<and>
             sint (blockdim_x p') = sint FIL_TPB - sint FIL_TPB mod sint (num_classes p) \<and>
             sint (num_classes p) dvd sint (blockdim_x p') \<and>
             sint (blockdim_x p') \<le> sint FIL_TPB \<and>
             (\<forall>m. sint (num_classes p) dvd m \<and> m \<le> sint FIL_TPB
                 \<longrightarrow> m \<le> sint (blockdim_x p')))"
    if "dispatch_on_FIL_template_params FIL_TPB p = Kernel_run c la n p'" for c la n p'
    using that by (rule kernel_run_blockdim_x)
  from unary categorical many few runs show ?thesis by blast
qed

text \<open>
  With a width of 256: a unary, a categorical and a 300-class grove plan run
  with a block of 256 threads, and a 3-class grove plan with a block of 255,
  the largest multiple of 3 up to 256.
\<close>

theorem dispatch_blockdim_x_witness:
  "dispatch_on_FIL_template_params 256
      \<lparr>num_classes = 1, leaf_algo = FLOAT_UNARY_BINARY, num_cols = 10, predict_proba = False,
       cols_in_shmem = False, n_items = 4, max_shm = 49152, blockdim_x = 0, shm_sz = 80,
       algo = 0, num_outputs = 1, preds = 0, data = 0, num_rows = 1000, transform = 0,
       num_blocks = 1\<rparr>
     = Kernel_run False FLOAT_UNARY_BINARY 4
      \<lparr>num_classes = 1, leaf_algo = FLOAT_UNARY_BINARY, num_cols = 10, predict_proba = False,
       cols_in_shmem = False, n_items = 4, max_shm = 49152, blockdim_x = 256, shm_sz = 80,
       algo = 0, num_outputs = 1, preds = 0, data = 0, num_rows = 1000, transform = 0,
       num_blocks = 1\<rparr> \<and>
   dispatch_on_FIL_template_params 256
      \<lparr>num_classes = 4, leaf_algo = CATEGORICAL_LEAF, num_cols = 10, predict_proba = False,
       cols_in_shmem = True, n_items = 1, max_shm = 49152, blockdim_x = 0, shm_sz = 80,
       algo = 0, num_outputs = 4, preds = 0, data = 0, num_rows = 1000, transform = 0,
       num_blocks = 1\<rparr>
     = Kernel_run True CATEGORICAL_LEAF 1
      \<lparr>num_classes = 4, leaf_algo = CATEGORICAL_LEAF, num_cols = 10, predict_proba = False,
       cols_in_shmem = True, n_items = 1, max_shm = 49152, blockdim_x = 256, shm_sz = 80,
       algo = 0, num_outputs = 4, preds = 0, data = 0, num_rows = 1000, transform = 0,
       num_blocks = 1\<rparr> \<and>
   (256::int32) <s 300 \<and>
   dispatch_on_FIL_template_params 256
      \<lparr>num_classes = 300, leaf_algo = GROVE_PER_CLASS, num_cols = 10, predict_proba = False,
       cols_in_shmem = True, n_items = 2, max_shm = 49152, blockdim_x = 0, shm_sz = 80,
       algo = 0, num_outputs = 300, preds = 0, data = 0, num_rows = 1000, transform = 0,
       num_blocks = 1\<rparr>
     = Kernel_run True GROVE_PER_CLASS_MANY_CLASSES 2
      \<lparr>num_classes = 300, leaf_algo = GROVE_PER_CLASS_MANY_CLASSES, num_cols = 10, predict_proba = False,
       cols_in_shmem = True, n_items = 2, max_shm = 49152, blockdim_x = 256, shm_sz = 80,
       algo = 0, num_outputs = 300, preds = 0, data = 0, num_rows = 1000, transform = 0,
       num_blocks = 1\<rparr> \<and>
   1 \<le> sint (3::int32) \<and> sint (3::int32) \<le> sint (256::int32) \<and>
   dispatch_on_FIL_template_params 256
      \<lparr>num_classes = 3, leaf_algo = GROVE_PER_CLASS, num_cols = 10, predict_proba = False,
       cols_in_shmem = True, n_items = 2, max_shm = 49152, blockdim_x = 0, shm_sz = 80,
       algo = 0, num_outputs = 3, preds = 0, data = 0, num_rows = 1000, transform = 0,
       num_blocks = 1\<rparr>
     = Kernel_run True GROVE_PER_CLASS_FEW_CLASSES 2
      \<lparr>num_classes = 3, leaf_algo = GROVE_PER_CLASS_FEW_CLASSES, num_cols = 10, predict_proba = False,
       cols_in_shmem = True, n_items = 2, max_shm = 49152, blockdim_x = 255, shm_sz = 80,
       algo = 0, num_outputs = 3, preds = 0, data = 0, num_rows = 1000, transform = 0,
       num_blocks = 1\<rparr> \<and>
   sint (255::int32) = 256 - 256 mod 3 \<and> (3::int) dvd 255"
proof -
  let ?u = "\<lparr>num_classes = 1, leaf_algo = FLOAT_UNARY_BINARY, num_cols = 10, predict_proba = False,
       cols_in_shmem = False, n_items = 4, max_shm = 49152, blockdim_x = 0, shm_sz = 80,
       algo = 0, num_outputs = 1, preds = 0, data = 0, num_rows = 1000, transform = 0,
       num_blocks = 1\<rparr>"
  let ?c = "\<lparr>num_classes = 4, leaf_algo = CATEGORICAL_LEAF, num_cols = 10, predict_proba = False,
       cols_in_shmem = True, n_items = 1, max_shm = 49152, blockdim_x = 0, shm_sz = 80,
       algo = 0, num_outputs = 4, preds = 0, data = 0, num_rows = 1000, transform = 0,
       num_blocks = 1\<rparr>"
  let ?m = "\<lparr>num_classes = 300, leaf_algo = GROVE_PER_CLASS, num_cols = 10, predict_proba = False,
       cols_in_shmem = True, n_items = 2, max_shm = 49152, blockdim_x = 0, shm_sz = 80,
       algo = 0, num_outputs = 300, preds = 0, data = 0, num_rows = 1000, transform = 0,
       num_blocks = 1\<rparr>"
  let ?g = "\<lparr>num_classes = 3, leaf_algo = GROVE_PER_CLASS, num_cols = 10, predict_proba = False,
       cols_in_shmem = True, n_items = 2, max_shm = 49152, blockdim_x = 0, shm_sz = 80,
       algo = 0, num_outputs = 3, preds = 0, data = 0, num_rows = 1000, transform = 0,
       num_blocks = 1\<rparr>"
  have u: "dispatch_on_FIL_template_params 256 ?u
             = Kernel_run False FLOAT_UNARY_BINARY 4 (?u\<lparr>blockdim_x := 256\<rparr>)"
    using dispatch_blockdim_x [of ?u 256] by simp
  have c: "dispatch_on_FIL_template_params 256 ?c
             = Kernel_run True CATEGORICAL_LEAF 1 (?c\<lparr>blockdim_x := 256\<rparr>)"
    using dispatch_blockdim_x [of ?c 256] by simp
  have lt: "(256::int32) <s 300" by simp
  have m: "dispatch_on_FIL_template_params 256 ?m
             = Kernel_run True GROVE_PER_CLASS_MANY_CLASSES 2
                 (?m\<lparr>leaf_algo := GROVE_PER_CLASS_MANY_CLASSES, blockdim_x := 256\<rparr>)"
    using dispatch_blockdim_x [of ?m 256] by simp
  have h: "n_items ?g \<in> {1, 2, 3, 4} \<and> leaf_algo ?g = GROVE_PER_CLASS
             \<and> 1 \<le> sint (num_classes ?g) \<and> sint (num_classes ?g) \<le> sint (256::int32)"
    by simp
  from dispatch_blockdim_x [of ?g 256] h obtain b
    where g: "dispatch_on_FIL_template_params 256 ?g
                = Kernel_run True GROVE_PER_CLASS_FEW_CLASSES 2
                    (?g\<lparr>leaf_algo := GROVE_PER_CLASS_FEW_CLASSES, blockdim_x := b\<rparr>)"
      and b: "sint b = sint (256::int32) - sint (256::int32) mod sint (num_classes ?g)"
    by auto
  from b have "sint b = sint (255::int32)" by simp
  then have "b = 255" by (rule signed_word_eqI)
  with u c lt m g show ?thesis by simp
qed

text \<open>
  Claim C8, as written: the dispatch asserts if and only if \<^verbatim>\<open>leaf_algo\<close> is none of
  \<^verbatim>\<open>FLOAT_UNARY_BINARY\<close>, \<^verbatim>\<open>GROVE_PER_CLASS\<close>, \<^verbatim>\<open>CATEGORICAL_LEAF\<close> or \<^verbatim>\<open>n_items\<close> is
  outside 1..4, and every plan with a recognized \<^verbatim>\<open>leaf_algo\<close> and \<^verbatim>\<open>n_items\<close> in
  1..4 runs exactly one kernel specialization. This fails for a
  \<^verbatim>\<open>GROVE_PER_CLASS\<close> plan with \<^verbatim>\<open>num_classes = 0\<close>: with a thread-block width of
  256 the few-classes branch is taken and \<^verbatim>\<open>FIL_TPB % params.num_classes\<close> is a
  remainder by zero, before any kernel is run and before \<^verbatim>\<open>n_items\<close> is looked at.
\<close>

theorem dispatch_zero_classes:
  "dispatch_on_FIL_template_params 256
      \<lparr>num_classes = 0, leaf_algo = GROVE_PER_CLASS, num_cols = 10, predict_proba = False,
       cols_in_shmem = True, n_items = 1, max_shm = 49152, blockdim_x = 0, shm_sz = 80,
       algo = 0, num_outputs = 0, preds = 0, data = 0, num_rows = 1000, transform = 0,
       num_blocks = 1\<rparr>
     = Undefined_remainder"
  by (simp add: dispatch_on_FIL_template_params_def dispatch_on_cols_in_shmem_def
      dispatch_on_leaf_algo_def mod_int_def word_sless_alt)

text \<open>
  Claim C8, amended: for every plan other than a \<^verbatim>\<open>GROVE_PER_CLASS\<close> plan that
  takes the few-classes branch (\<^verbatim>\<open>num_classes \<le> FIL_TPB\<close>) with
  \<^verbatim>\<open>num_classes = 0\<close>, the dispatch asserts if and only if \<^verbatim>\<open>leaf_algo\<close> is none
  of \<^verbatim>\<open>FLOAT_UNARY_BINARY\<close>, \<^verbatim>\<open>GROVE_PER_CLASS\<close>, \<^verbatim>\<open>CATEGORICAL_LEAF\<close> or \<^verbatim>\<open>n_items\<close> is
  outside 1..4; and with a recognized \<^verbatim>\<open>leaf_algo\<close> and \<^verbatim>\<open>n_items\<close> in 1..4 it runs
  one kernel specialization, the one for the plan's \<^verbatim>\<open>cols_in_shmem\<close>, a resolved
  leaf algorithm and the plan's \<^verbatim>\<open>n_items\<close>, and no other.
\<close>

theorem dispatch_total:
  assumes "\<not> (leaf_algo p = GROVE_PER_CLASS \<and> \<not> FIL_TPB <s num_classes p \<and> num_classes p = 0)"
  shows "((\<exists>msg. dispatch_on_FIL_template_params FIL_TPB p = Assert_failed msg) \<longleftrightarrow>
            leaf_algo p \<notin> {FLOAT_UNARY_BINARY, GROVE_PER_CLASS, CATEGORICAL_LEAF}
            \<or> n_items p \<notin> {1, 2, 3, 4})
       \<and> (leaf_algo p \<in> {FLOAT_UNARY_BINARY, GROVE_PER_CLASS, CATEGORICAL_LEAF}
            \<and> n_items p \<in> {1, 2, 3, 4} \<longrightarrow>
            (\<exists>la p'. la \<in> {FLOAT_UNARY_BINARY, GROVE_PER_CLASS_FEW_CLASSES,
                              GROVE_PER_CLASS_MANY_CLASSES, CATEGORICAL_LEAF} \<and>
               dispatch_on_FIL_template_params FIL_TPB p
                 = Kernel_run (cols_in_shmem p) la (n_items p) p' \<and>
               (\<forall>c' la' n' q. dispatch_on_FIL_template_params FIL_TPB p = Kernel_run c' la' n' q
                  \<longrightarrow> c' = cols_in_shmem p \<and> la' = la \<and> n' = n_items p)))"
proof -
  have a: "(\<exists>msg. dispatch_on_FIL_template_params FIL_TPB p = Assert_failed msg) \<longleftrightarrow>
            leaf_algo p \<notin> {FLOAT_UNARY_BINARY, GROVE_PER_CLASS, CATEGORICAL_LEAF}
            \<or> n_items p \<notin> {1, 2, 3, 4}"
    using assms by (cases "leaf_algo p") (simp_all add: dispatch_outcome)
  have b: "\<exists>la p'. la \<in> {FLOAT_UNARY_BINARY, GROVE_PER_CLASS_FEW_CLASSES,
                              GROVE_PER_CLASS_MANY_CLASSES, CATEGORICAL_LEAF} \<and>
               dispatch_on_FIL_template_params FIL_TPB p
                 = Kernel_run (cols_in_shmem p) la (n_items p) p' \<and>
               (\<forall>c' la' n' q. dispatch_on_FIL_template_params FIL_TPB p = Kernel_run c' la' n' q
                  \<longrightarrow> c' = cols_in_shmem p \<and> la' = la \<and> n' = n_items p)"
    if "leaf_algo p \<in> {FLOAT_UNARY_BINARY, GROVE_PER_CLASS, CATEGORICAL_LEAF}"
      and "n_items p \<in> {1, 2, 3, 4}"
    using assms that by (cases "leaf_algo p") (simp_all add: dispatch_outcome)
  from a b show ?thesis by blast
qed

text \<open>
  A unary plan with four rows per thread and no column cache runs the kernel
  specialization \<open>(False, FLOAT_UNARY_BINARY, 4)\<close> and does not assert.
\<close>

theorem dispatch_total_witness:
  "\<not> (leaf_algo
        \<lparr>num_classes = 1, leaf_algo = FLOAT_UNARY_BINARY, num_cols = 10, predict_proba = False,
       cols_in_shmem = False, n_items = 4, max_shm = 49152, blockdim_x = 0, shm_sz = 80,
       algo = 0, num_outputs = 1, preds = 0, data = 0, num_rows = 1000, transform = 0,
       num_blocks = 1\<rparr> = GROVE_PER_CLASS \<and> \<not> (256::int32) <s 1 \<and> (1::int32) = 0) \<and>
   \<not> (\<exists>msg. dispatch_on_FIL_template_params 256
        \<lparr>num_classes = 1, leaf_algo = FLOAT_UNARY_BINARY, num_cols = 10, predict_proba = False,
       cols_in_shmem = False, n_items = 4, max_shm = 49152, blockdim_x = 0, shm_sz = 80,
       algo = 0, num_outputs = 1, preds = 0, data = 0, num_rows = 1000, transform = 0,
       num_blocks = 1\<rparr> = Assert_failed msg) \<and>
   (\<exists>p'. dispatch_on_FIL_template_params 256
        \<lparr>num_classes = 1, leaf_algo = FLOAT_UNARY_BINARY, num_cols = 10, predict_proba = False,
       cols_in_shmem = False, n_items = 4, max_shm = 49152, blockdim_x = 0, shm_sz = 80,
       algo = 0, num_outputs = 1, preds = 0, data = 0, num_rows = 1000, transform = 0,
       num_blocks = 1\<rparr> = Kernel_run False FLOAT_UNARY_BINARY 4 p')"
proof -
  let ?p = "\<lparr>num_classes = 1, leaf_algo = FLOAT_UNARY_BINARY, num_cols = 10, predict_proba = False,
       cols_in_shmem = False, n_items = 4, max_shm = 49152, blockdim_x = 0, shm_sz = 80,
       algo = 0, num_outputs = 1, preds = 0, data = 0, num_rows = 1000, transform = 0,
       num_blocks = 1\<rparr>"
  have h: "\<not> (leaf_algo ?p = GROVE_PER_CLASS \<and> \<not> (256::int32) <s num_classes ?p
              \<and> num_classes ?p = 0)"
    by simp
  from dispatch_total [OF h]
  have "\<not> (\<exists>msg. dispatch_on_FIL_template_params 256 ?p = Assert_failed msg)"
    by simp
  moreover from dispatch_total [OF h]
  have "\<exists>la p'. dispatch_on_FIL_template_params 256 ?p = Kernel_run False la 4 p'"
    by simp blast
  moreover have "dispatch_on_FIL_template_params 256 ?p
                   = Kernel_run False FLOAT_UNARY_BINARY 4 (?p\<lparr>blockdim_x := 256\<rparr>)"
    by (simp add: dispatch_on_FIL_template_params_def dispatch_on_cols_in_shmem_def
        dispatch_on_leaf_algo_def dispatch_on_n_items_def dispatch_final_def mod_int_def
        signed_modulo_int_def word_sless_alt)
  ultimately show ?thesis by simp
qed

text \<open>
  Claim C10. At every kernel run reached through the dispatcher, the parameters
  handed to the kernel have a resolved \<^verbatim>\<open>leaf_algo\<close>, one of
  \<^verbatim>\<open>FLOAT_UNARY_BINARY\<close>, \<^verbatim>\<open>GROVE_PER_CLASS_FEW_CLASSES\<close>,
  \<^verbatim>\<open>GROVE_PER_CLASS_MANY_CLASSES\<close>, \<^verbatim>\<open>CATEGORICAL_LEAF\<close> and never
  \<^verbatim>\<open>GROVE_PER_CLASS\<close>, and it is the leaf algorithm of the specialization that
  runs; and, for \<^verbatim>\<open>num_classes \<ge> 1\<close>, \<^verbatim>\<open>blockdim_x\<close> has been given a value in
  \<open>1..FIL_TPB\<close>. \<^verbatim>\<open>FIL_TPB\<close> is a thread-block width, a positive number.
\<close>

theorem kernel_params_resolved:
  assumes tpb: "0 <s FIL_TPB" and nc: "1 \<le> sint (num_classes p)"
    and run: "dispatch_on_FIL_template_params FIL_TPB p = Kernel_run c la n p'"
  shows "leaf_algo p' \<in> {FLOAT_UNARY_BINARY, GROVE_PER_CLASS_FEW_CLASSES,
            GROVE_PER_CLASS_MANY_CLASSES, CATEGORICAL_LEAF}
       \<and> leaf_algo p' \<noteq> GROVE_PER_CLASS \<and> leaf_algo p' = la
       \<and> 1 \<le> sint (blockdim_x p') \<and> sint (blockdim_x p') \<le> sint FIL_TPB"
proof -
  have t1: "1 \<le> sint FIL_TPB" using tpb by (simp add: word_sless_alt)
  have la: "leaf_algo p' \<in> {FLOAT_UNARY_BINARY, GROVE_PER_CLASS_FEW_CLASSES,
            GROVE_PER_CLASS_MANY_CLASSES, CATEGORICAL_LEAF} \<and> leaf_algo p' = la"
    using run by (cases "leaf_algo p") (auto simp: dispatch_outcome split: if_splits)
  have bd: "1 \<le> sint (blockdim_x p') \<and> sint (blockdim_x p') \<le> sint FIL_TPB"
  proof (cases "la = GROVE_PER_CLASS_FEW_CLASSES")
    case True
    with run nc have le: "sint (num_classes p) \<le> sint FIL_TPB"
      and b: "blockdim_x p' = FIL_TPB - word_of_int (sint FIL_TPB smod sint (num_classes p))"
      by (auto simp: dispatch_outcome word_sless_alt split: if_splits)
    have v: "sint (blockdim_x p') = sint FIL_TPB - sint FIL_TPB mod sint (num_classes p)"
      unfolding b using nc le by (rule few_classes_blockdim)
    have "sint (num_classes p) \<le> sint FIL_TPB - sint FIL_TPB mod sint (num_classes p)"
      using largest_multiple(3) [OF nc, of "sint (num_classes p)" "sint FIL_TPB"] le by simp
    with nc largest_multiple(2) [OF nc, of "sint FIL_TPB"] show ?thesis unfolding v by linarith
  next
    case False
    with run have "blockdim_x p' = FIL_TPB"
      by (cases "leaf_algo p") (auto simp: dispatch_outcome split: if_splits)
    with t1 show ?thesis by simp
  qed
  from la bd show ?thesis by auto
qed

text \<open>
  Seven classes and a width of 256: the kernel is given the few-classes
  algorithm and a block of 252 threads.
\<close>

theorem kernel_params_resolved_witness:
  "(0::int32) <s 256 \<and> 1 \<le> sint (7::int32) \<and>
   dispatch_on_FIL_template_params 256
      \<lparr>num_classes = 7, leaf_algo = GROVE_PER_CLASS, num_cols = 10, predict_proba = False,
       cols_in_shmem = True, n_items = 1, max_shm = 49152, blockdim_x = 0, shm_sz = 80,
       algo = 0, num_outputs = 7, preds = 0, data = 0, num_rows = 1000, transform = 0,
       num_blocks = 1\<rparr>
     = Kernel_run True GROVE_PER_CLASS_FEW_CLASSES 1
      \<lparr>num_classes = 7, leaf_algo = GROVE_PER_CLASS_FEW_CLASSES, num_cols = 10, predict_proba = False,
       cols_in_shmem = True, n_items = 1, max_shm = 49152, blockdim_x = 252, shm_sz = 80,
       algo = 0, num_outputs = 7, preds = 0, data = 0, num_rows = 1000, transform = 0,
       num_blocks = 1\<rparr> \<and>
   1 \<le> sint (252::int32) \<and> sint (252::int32) \<le> sint (256::int32)"
proof -
  let ?p = "\<lparr>num_classes = 7, leaf_algo = GROVE_PER_CLASS, num_cols = 10, predict_proba = False,
       cols_in_shmem = True, n_items = 1, max_shm = 49152, blockdim_x = 0, shm_sz = 80,
       algo = 0, num_outputs = 7, preds = 0, data = 0, num_rows = 1000, transform = 0,
       num_blocks = 1\<rparr>"
  let ?p' = "\<lparr>num_classes = 7, leaf_algo = GROVE_PER_CLASS_FEW_CLASSES, num_cols = 10, predict_proba = False,
       cols_in_shmem = True, n_items = 1, max_shm = 49152, blockdim_x = 252, shm_sz = 80,
       algo = 0, num_outputs = 7, preds = 0, data = 0, num_rows = 1000, transform = 0,
       num_blocks = 1\<rparr>"
  have h1: "(0::int32) <s 256" by (simp add: word_sless_alt)
  have h2: "1 \<le> sint (num_classes ?p)" by simp
  have run: "dispatch_on_FIL_template_params 256 ?p
               = Kernel_run True GROVE_PER_CLASS_FEW_CLASSES 1 ?p'"
    by (simp add: dispatch_on_FIL_template_params_def dispatch_on_cols_in_shmem_def
        dispatch_on_leaf_algo_def dispatch_on_n_items_def dispatch_final_def mod_int_def
        signed_modulo_int_def word_sless_alt)
  from kernel_params_resolved [OF h1 h2 run] h1 run show ?thesis by simp
qed

section \<open>The caller's plan\<close>

lemma update_own_object: "\<exists>v. s = s[me := v]"
  by (metis list_update_id)

text \<open>
  A callee that writes to no object but its own leaves the caller's stack as it
  was, and its result is a function of the argument.
\<close>

lemma call_by_value_frame:
  assumes "\<And>me s'. me < length s' \<Longrightarrow> \<exists>v. callee me s' = (f (s' ! me), s'[me := v])"
  shows "call_by_value callee arg s = (f arg, s)"
proof -
  have "length s < length (s @ [arg])" by simp
  from assms [OF this] obtain v
    where "callee (length s) (s @ [arg]) = (f arg, (s @ [arg])[length s := v])"
    by auto
  then show ?thesis by (simp add: call_by_value_def)
qed

lemma dispatch_final_mem_eq:
  "dispatch_final_mem c la n me s = (dispatch_final c la n (s ! me), s)"
  unfolding dispatch_final_mem_def
  by (rule call_by_value_frame)
    (simp add: kernel_run_mem_def dispatch_final_def update_own_object)

lemma call_final:
  "call_by_value (dispatch_final_mem c la n) p s = (dispatch_final c la n p, s)"
  by (rule call_by_value_frame) (simp add: dispatch_final_mem_eq update_own_object)

lemma dispatch_on_n_items_mem_eq:
  "dispatch_on_n_items_mem c la me s = (dispatch_on_n_items c la (s ! me), s)"
  by (simp add: dispatch_on_n_items_mem_def dispatch_on_n_items_def call_final)

lemma call_n_items:
  "call_by_value (dispatch_on_n_items_mem c la) p s = (dispatch_on_n_items c la p, s)"
  by (rule call_by_value_frame) (simp add: dispatch_on_n_items_mem_eq update_own_object)

text \<open>
  \<^verbatim>\<open>dispatch_on_leaf_algo\<close> is the one function that assigns to its \<^verbatim>\<open>params\<close>: it
  changes its own object and nothing else.
\<close>

lemma dispatch_on_leaf_algo_mem_eq:
  assumes "me < length s"
  shows "\<exists>v. dispatch_on_leaf_algo_mem FIL_TPB c me s
               = (dispatch_on_leaf_algo FIL_TPB c (s ! me), s[me := v])"
proof (cases "leaf_algo (s ! me)")
  case FLOAT_UNARY_BINARY
  with assms show ?thesis
    by (simp add: dispatch_on_leaf_algo_mem_def dispatch_on_leaf_algo_def assign_def call_n_items)
      blast
next
  case CATEGORICAL_LEAF
  with assms show ?thesis
    by (simp add: dispatch_on_leaf_algo_mem_def dispatch_on_leaf_algo_def assign_def call_n_items)
      blast
next
  case GROVE_PER_CLASS
  with assms show ?thesis
    by (auto simp: dispatch_on_leaf_algo_mem_def dispatch_on_leaf_algo_def assign_def call_n_items
        split: option.splits)
next
  case GROVE_PER_CLASS_FEW_CLASSES
  then show ?thesis
    by (simp add: dispatch_on_leaf_algo_mem_def dispatch_on_leaf_algo_def update_own_object)
next
  case GROVE_PER_CLASS_MANY_CLASSES
  then show ?thesis
    by (simp add: dispatch_on_leaf_algo_mem_def dispatch_on_leaf_algo_def update_own_object)
qed

lemma call_leaf_algo:
  "call_by_value (dispatch_on_leaf_algo_mem FIL_TPB c) p s = (dispatch_on_leaf_algo FIL_TPB c p, s)"
  by (rule call_by_value_frame) (rule dispatch_on_leaf_algo_mem_eq)

lemma dispatch_on_cols_in_shmem_mem_eq:
  "dispatch_on_cols_in_shmem_mem FIL_TPB me s = (dispatch_on_cols_in_shmem FIL_TPB (s ! me), s)"
  by (simp add: dispatch_on_cols_in_shmem_mem_def dispatch_on_cols_in_shmem_def call_leaf_algo)

lemma call_cols_in_shmem:
  "call_by_value (dispatch_on_cols_in_shmem_mem FIL_TPB) p s
     = (dispatch_on_cols_in_shmem FIL_TPB p, s)"
  by (rule call_by_value_frame) (simp add: dispatch_on_cols_in_shmem_mem_eq update_own_object)

lemma dispatch_on_FIL_template_params_mem_eq:
  "dispatch_on_FIL_template_params_mem FIL_TPB me s
     = (dispatch_on_FIL_template_params FIL_TPB (s ! me), s)"
  by (simp add: dispatch_on_FIL_template_params_mem_def dispatch_on_FIL_template_params_def
      call_cols_in_shmem)

lemma call_FIL_template_params:
  "call_by_value (dispatch_on_FIL_template_params_mem FIL_TPB) p s
     = (dispatch_on_FIL_template_params FIL_TPB p, s)"
  by (rule call_by_value_frame)
    (simp add: dispatch_on_FIL_template_params_mem_eq update_own_object)

text \<open>
  Claim C9. Dispatching does not change the caller's plan. \<^verbatim>\<open>predict_params\<close> is
  passed by value through the whole chain, so the assignments to \<^verbatim>\<open>leaf_algo\<close> and
  \<^verbatim>\<open>blockdim_x\<close> inside \<^verbatim>\<open>dispatch_on_leaf_algo\<close> go to that function's own copy:
  when a caller whose plan is the object at index \<open>a\<close> calls
  \<^verbatim>\<open>dispatch_on_FIL_template_params\<close> with it, every object of the caller's stack, and
  so every field of its plan, is afterwards what it was before the call. The
  outcome of the call is the one the dispatch has on the value of the plan.
\<close>

theorem dispatch_keeps_callers_plan:
  assumes "a < length s"
    and "call_by_value (dispatch_on_FIL_template_params_mem FIL_TPB) (s ! a) s = (r, s')"
  shows "s' = s \<and> s' ! a = s ! a \<and> r = dispatch_on_FIL_template_params FIL_TPB (s ! a)"
  using assms(2) by (auto simp: call_FIL_template_params)

text \<open>
  A caller with a \<^verbatim>\<open>GROVE_PER_CLASS\<close> plan of five classes: the kernel is given
  the few-classes algorithm and a block of 255 threads, and the caller's plan
  still says \<^verbatim>\<open>GROVE_PER_CLASS\<close> and \<^verbatim>\<open>blockdim_x = 0\<close>.
\<close>

theorem dispatch_keeps_callers_plan_witness:
  "(0::nat) < length
     [\<lparr>num_classes = 5, leaf_algo = GROVE_PER_CLASS, num_cols = 10, predict_proba = False,
       cols_in_shmem = True, n_items = 3, max_shm = 49152, blockdim_x = 0, shm_sz = 80,
       algo = 0, num_outputs = 5, preds = 0, data = 0, num_rows = 1000, transform = 0,
       num_blocks = 1\<rparr>] \<and>
   call_by_value (dispatch_on_FIL_template_params_mem 256)
     ([\<lparr>num_classes = 5, leaf_algo = GROVE_PER_CLASS, num_cols = 10, predict_proba = False,
       cols_in_shmem = True, n_items = 3, max_shm = 49152, blockdim_x = 0, shm_sz = 80,
       algo = 0, num_outputs = 5, preds = 0, data = 0, num_rows = 1000, transform = 0,
       num_blocks = 1\<rparr>] ! 0)
     [\<lparr>num_classes = 5, leaf_algo = GROVE_PER_CLASS, num_cols = 10, predict_proba = False,
       cols_in_shmem = True, n_items = 3, max_shm = 49152, blockdim_x = 0, shm_sz = 80,
       algo = 0, num_outputs = 5, preds = 0, data = 0, num_rows = 1000, transform = 0,
       num_blocks = 1\<rparr>]
   = (Kernel_run True GROVE_PER_CLASS_FEW_CLASSES 3
      \<lparr>num_classes = 5, leaf_algo = GROVE_PER_CLASS_FEW_CLASSES, num_cols = 10, predict_proba = False,
       cols_in_shmem = True, n_items = 3, max_shm = 49152, blockdim_x = 255, shm_sz = 80,
       algo = 0, num_outputs = 5, preds = 0, data = 0, num_rows = 1000, transform = 0,
       num_blocks = 1\<rparr>,
     [\<lparr>num_classes = 5, leaf_algo = GROVE_PER_CLASS, num_cols = 10, predict_proba = False,
       cols_in_shmem = True, n_items = 3, max_shm = 49152, blockdim_x = 0, shm_sz = 80,
       algo = 0, num_outputs = 5, preds = 0, data = 0, num_rows = 1000, transform = 0,
       num_blocks = 1\<rparr>])"
proof -
  let ?p = "\<lparr>num_classes = 5, leaf_algo = GROVE_PER_CLASS, num_cols = 10, predict_proba = False,
       cols_in_shmem = True, n_items = 3, max_shm = 49152, blockdim_x = 0, shm_sz = 80,
       algo = 0, num_outputs = 5, preds = 0, data = 0, num_rows = 1000, transform = 0,
       num_blocks = 1\<rparr>"
  let ?p' = "\<lparr>num_classes = 5, leaf_algo = GROVE_PER_CLASS_FEW_CLASSES, num_cols = 10, predict_proba = False,
       cols_in_shmem = True, n_items = 3, max_shm = 49152, blockdim_x = 255, shm_sz = 80,
       algo = 0, num_outputs = 5, preds = 0, data = 0, num_rows = 1000, transform = 0,
       num_blocks = 1\<rparr>"
  have h: "(0::nat) < length [?p]" by simp
  obtain r s' where c: "call_by_value (dispatch_on_FIL_template_params_mem 256) ([?p] ! 0) [?p]
                          = (r, s')"
    by (cases "call_by_value (dispatch_on_FIL_template_params_mem 256) ([?p] ! 0) [?p]")
  have run: "dispatch_on_FIL_template_params 256 ?p
               = Kernel_run True GROVE_PER_CLASS_FEW_CLASSES 3 ?p'"
    by (simp add: dispatch_on_FIL_template_params_def dispatch_on_cols_in_shmem_def
        dispatch_on_leaf_algo_def dispatch_on_n_items_def dispatch_final_def mod_int_def
        signed_modulo_int_def word_sless_alt)
  from dispatch_keeps_callers_plan [OF h c] have "s' = [?p]"
    and "r = dispatch_on_FIL_template_params 256 ([?p] ! 0)"
    by simp_all
  with run have "r = Kernel_run True GROVE_PER_CLASS_FEW_CLASSES 3 ?p'" "s' = [?p]"
    by simp_all
  with c h show ?thesis by simp
qed

end
